theory Spec2Isabelle
  imports Main "HOL-Library.Word"
begin

section \<open>JavaScript strings\<close>

text \<open>
  A JavaScript string is a sequence of UTF-16 code units. \<open>str\<close> writes an ASCII literal
  of the source as such a sequence.
\<close>

type_synonym jsstring = "16 word list"

definition str :: "string \<Rightarrow> jsstring" where
  "str s = map (\<lambda>c. word_of_nat (of_char c)) s"

text \<open>
  \<open>String.prototype.trim\<close> removes ECMAScript WhiteSpace and LineTerminator code points
  from both ends: TAB, LF, VT, FF, CR, SP, NBSP, U+1680, U+2000..U+200A, U+2028, U+2029,
  U+202F, U+205F, U+3000 and U+FEFF.
\<close>

definition isWhiteSpace :: "16 word \<Rightarrow> bool" where
  "isWhiteSpace c =
     (c \<in> set [0x09, 0x0A, 0x0B, 0x0C, 0x0D, 0x20, 0xA0, 0x1680, 0x2028, 0x2029,
                0x202F, 0x205F, 0x3000, 0xFEFF]
      \<or> (0x2000 \<le> c \<and> c \<le> 0x200A))"

definition trim :: "jsstring \<Rightarrow> jsstring" where
  "trim s = rev (dropWhile isWhiteSpace (rev (dropWhile isWhiteSpace s)))"

definition endsWith :: "jsstring \<Rightarrow> jsstring \<Rightarrow> bool" where
  "endsWith s t = (length t \<le> length s \<and> drop (length s - length t) s = t)"

section \<open>Data model of the application component\<close>

datatype Role = User | Model | System

text \<open>\<open>isThinking\<close> is an optional field: \<open>None\<close> is a message object without it.\<close>

record ChatMessage =
  msg_id :: jsstring
  role :: Role
  content :: jsstring
  isThinking :: "bool option"

datatype Theme = Light | Dark

text \<open>The argument object that \<open>continueWritingStream\<close> hands to \<open>generateContentStream\<close>.\<close>

record GenerateContentParameters =
  model :: jsstring
  contents :: jsstring
  systemInstruction :: jsstring

datatype gateway_call =
    SendMessage jsstring
  | GenerateContentStream GenerateContentParameters

text \<open>
  The \<open>useState\<close> cells of the component, and two logs of what the component did to the
  outside world: the calls issued to the backend and the files saved by the export.
\<close>

record app_state =
  theme :: Theme
  isFocusMode :: bool
  storyContent :: jsstring
  selectedText :: jsstring
  isAiResponding :: bool
  chatHistory :: "ChatMessage list"
  isExportingPdf :: bool
  gatewayCalls :: "gateway_call list"
  savedFiles :: "jsstring list"

datatype js_error = Error (message: jsstring)

text \<open>How a handler ends: normally, or with an exception that leaves it.\<close>

datatype completion = Normal app_state | Throw js_error app_state

fun state_of :: "completion \<Rightarrow> app_state" where
  "state_of (Normal s) = s"
| "state_of (Throw e s) = s"

fun escaped :: "completion \<Rightarrow> js_error option" where
  "escaped (Normal s) = None"
| "escaped (Throw e s) = Some e"

text \<open>
  What the streaming backend does after the request: the promise of the stream rejects, or
  the stream delivers the texts of some chunks and then ends or is interrupted.
\<close>

datatype stream_result =
    OpenFailed js_error
  | Chunks "jsstring list" "js_error option"

section \<open>services/geminiService.ts\<close>

definition textModel :: jsstring where
  "textModel = str ''gemini-2.5-flash''"

definition continueWritingStream :: "jsstring \<Rightarrow> GenerateContentParameters" where
  "continueWritingStream story =
     \<lparr> model = textModel,
       contents = (if story \<noteq> [] then story else str ''Start a new, intriguing story.''),
       systemInstruction =
         str ''You are a creative and eloquent co-author. Your task is to continue the story provided by the user in a natural and compelling way. Maintain the existing tone and style, and advance the plot or deepen the characters. Do not add introductory phrases like ''
         @ [0x27] @ str ''Here'' @ [0x27] @ str ''s the continuation'' @ [0x27]
         @ str ''. Just write the next part of the story.'' \<rparr>"

section \<open>The handlers of the component\<close>

text \<open>
  \<open>nanoid()\<close> is an external random source. Every handler takes the results of its own
  draws as a function: \<open>nanoid k\<close> is what the \<open>k\<close>-th call returns.
\<close>

definition addSystemMessage :: "jsstring \<Rightarrow> jsstring \<Rightarrow> app_state \<Rightarrow> app_state" where
  "addSystemMessage new_id text s =
     s\<lparr>chatHistory := chatHistory s @
          [\<lparr>msg_id = new_id, role = System, content = text, isThinking = None\<rparr>]\<rparr>"

text \<open>The updater \<open>msg => msg.id === thinkingId ? {...msg, content, isThinking: false} : msg\<close>.\<close>

definition resolveThinking :: "jsstring \<Rightarrow> jsstring \<Rightarrow> ChatMessage \<Rightarrow> ChatMessage" where
  "resolveThinking thinkingId text msg =
     (if msg_id msg = thinkingId then msg\<lparr>content := text, isThinking := Some False\<rparr> else msg)"

text \<open>\<open>hiddenPrompt || prompt\<close>: an absent or empty hidden prompt gives the visible one.\<close>

definition fullPrompt :: "jsstring \<Rightarrow> jsstring option \<Rightarrow> jsstring" where
  "fullPrompt prompt hiddenPrompt =
     (case hiddenPrompt of
        None \<Rightarrow> prompt
      | Some h \<Rightarrow> if h \<noteq> [] then h else prompt)"

text \<open>
  \<open>handleSendMessage\<close> up to its \<open>await\<close>: the flag, the two ledger entries, and the call
  of \<open>sendMessage\<close>. The first draw of \<open>nanoid\<close> is \<open>thinkingId\<close>, the second the id of
  the user turn.
\<close>

definition handleSendMessage_invoke ::
    "(nat \<Rightarrow> jsstring) \<Rightarrow> jsstring \<Rightarrow> jsstring option \<Rightarrow> app_state \<Rightarrow> app_state" where
  "handleSendMessage_invoke nanoid prompt hiddenPrompt s =
     s\<lparr>isAiResponding := True,
       chatHistory := chatHistory s
         @ (if prompt \<noteq> []
            then [\<lparr>msg_id = nanoid 1, role = User, content = prompt, isThinking = None\<rparr>]
            else [])
         @ [\<lparr>msg_id = nanoid 0, role = Model, content = str ''Thinking...'',
              isThinking = Some True\<rparr>],
       gatewayCalls := gatewayCalls s @ [SendMessage (fullPrompt prompt hiddenPrompt)]\<rparr>"

text \<open>
  \<open>handleSendMessage\<close> from the moment the awaited promise settles: the rest of the
  \<open>try\<close> block, the \<open>catch\<close> block and the \<open>finally\<close> block, on the state of that moment.
\<close>

definition handleSendMessage_settle ::
    "jsstring \<Rightarrow> js_error + jsstring \<Rightarrow> app_state \<Rightarrow> completion" where
  "handleSendMessage_settle thinkingId response s =
     (let tried =
            (case response of
               Inr text \<Rightarrow>
                 Normal (s\<lparr>chatHistory := map (resolveThinking thinkingId text) (chatHistory s)\<rparr>)
             | Inl e \<Rightarrow> Throw e s);
          caught =
            (case tried of
               Normal s1 \<Rightarrow> Normal s1
             | Throw e s1 \<Rightarrow>
                 Normal (s1\<lparr>chatHistory :=
                   map (resolveThinking thinkingId (str ''An error occurred: '' @ message e))
                       (chatHistory s1)\<rparr>))
      in (case caught of
            Normal s2 \<Rightarrow> Normal (s2\<lparr>isAiResponding := False\<rparr>)
          | Throw e s2 \<Rightarrow> Throw e (s2\<lparr>isAiResponding := False\<rparr>)))"

definition handleSendMessage ::
    "(nat \<Rightarrow> jsstring) \<Rightarrow> jsstring \<Rightarrow> jsstring option \<Rightarrow> js_error + jsstring
       \<Rightarrow> app_state \<Rightarrow> completion" where
  "handleSendMessage nanoid prompt hiddenPrompt response s =
     handleSendMessage_settle (nanoid 0) response
       (handleSendMessage_invoke nanoid prompt hiddenPrompt s)"

text \<open>The states one run of \<open>handleSendMessage\<close> sets, in order: while it waits, and at its end.\<close>

definition handleSendMessage_states ::
    "(nat \<Rightarrow> jsstring) \<Rightarrow> jsstring \<Rightarrow> jsstring option \<Rightarrow> js_error + jsstring
       \<Rightarrow> app_state \<Rightarrow> app_state list" where
  "handleSendMessage_states nanoid prompt hiddenPrompt response s =
     [handleSendMessage_invoke nanoid prompt hiddenPrompt s,
      state_of (handleSendMessage nanoid prompt hiddenPrompt response s)]"

definition handleImproveWriting ::
    "(nat \<Rightarrow> jsstring) \<Rightarrow> js_error + jsstring \<Rightarrow> app_state \<Rightarrow> completion" where
  "handleImproveWriting nanoid response s =
     (if trim (selectedText s) = []
      then Normal (addSystemMessage (nanoid 0)
                     (str ''Please select some text in the editor to improve.'') s)
      else handleSendMessage nanoid []
             (Some (str ''Rewrite the following text to be more vivid and engaging, improving the prose without adding new plot points. Text: ''
                    @ [0x22] @ selectedText s @ [0x22]))
             response s)"

definition handleLanguageSelect ::
    "(nat \<Rightarrow> jsstring) \<Rightarrow> jsstring \<Rightarrow> js_error + jsstring \<Rightarrow> app_state \<Rightarrow> completion" where
  "handleLanguageSelect nanoid language response s =
     (if trim (selectedText s) = []
      then Normal s
      else handleSendMessage nanoid []
             (Some (str ''Translate the following text into '' @ language
                    @ str ''. Only return the translated text. Text: ''
                    @ [0x22] @ selectedText s @ [0x22]))
             response s)"

definition handleTranslate :: "(nat \<Rightarrow> jsstring) \<Rightarrow> app_state \<Rightarrow> app_state" where
  "handleTranslate nanoid s =
     (if trim (selectedText s) = []
      then addSystemMessage (nanoid 0) (str ''Please select some text to translate.'') s
      else addSystemMessage (nanoid 0) (str ''translate'') s)"

subsection \<open>The streaming continuation\<close>

text \<open>The initial value of the local variable \<open>currentContent\<close>.\<close>

definition initialContent :: "jsstring \<Rightarrow> jsstring" where
  "initialContent story =
     (if length story > 0 \<and> \<not> endsWith story (str '' '') then story @ str '' '' else story)"

text \<open>
  \<open>handleContinueWriting\<close> up to its first \<open>await\<close>; \<open>None\<close> is the \<open>return\<close> at the
  guard.
\<close>

definition handleContinueWriting_invoke ::
    "(nat \<Rightarrow> jsstring) \<Rightarrow> app_state \<Rightarrow> app_state option" where
  "handleContinueWriting_invoke nanoid s =
     (if isAiResponding s then None
      else Some (s\<lparr>isAiResponding := True,
                   chatHistory := chatHistory s @
                     [\<lparr>msg_id = nanoid 0, role = Model,
                       content = str ''Continuing the story...'', isThinking = Some True\<rparr>],
                   gatewayCalls := gatewayCalls s @
                     [GenerateContentStream (continueWritingStream (storyContent s))]\<rparr>))"

text \<open>
  The body of the \<open>for await\<close> loop, once per chunk: the states after each
  \<open>setStoryContent(currentContent)\<close>.
\<close>

fun for_await :: "jsstring \<Rightarrow> jsstring list \<Rightarrow> app_state \<Rightarrow> app_state list" where
  "for_await currentContent [] s = []"
| "for_await currentContent (text # chunks) s =
     (let currentContent' = currentContent @ text;
          s' = s\<lparr>storyContent := currentContent'\<rparr>
      in s' # for_await currentContent' chunks s')"

text \<open>
  The end of \<open>handleContinueWriting\<close>: the \<open>filter\<close> after a loop that ended normally, or
  the \<open>catch\<close> block, and then the \<open>finally\<close> block.
\<close>

definition handleContinueWriting_settle ::
    "jsstring \<Rightarrow> js_error option \<Rightarrow> app_state \<Rightarrow> completion" where
  "handleContinueWriting_settle thinkingId failure s =
     (let tried =
            (case failure of
               None \<Rightarrow>
                 Normal (s\<lparr>chatHistory := filter (\<lambda>msg. msg_id msg \<noteq> thinkingId) (chatHistory s)\<rparr>)
             | Some e \<Rightarrow> Throw e s);
          caught =
            (case tried of
               Normal s1 \<Rightarrow> Normal s1
             | Throw e s1 \<Rightarrow>
                 Normal (s1\<lparr>chatHistory :=
                   map (resolveThinking thinkingId
                          (str ''An error occurred while streaming: '' @ message e))
                       (chatHistory s1)\<rparr>))
      in (case caught of
            Normal s2 \<Rightarrow> Normal (s2\<lparr>isAiResponding := False\<rparr>)
          | Throw e s2 \<Rightarrow> Throw e (s2\<lparr>isAiResponding := False\<rparr>)))"

text \<open>
  One run of \<open>handleContinueWriting\<close>: the states it sets, in order, and how it ends.
  \<open>storyContent\<close> is the value the handler closed over, the one of the state it was
  invoked in.
\<close>

definition handleContinueWriting_run ::
    "(nat \<Rightarrow> jsstring) \<Rightarrow> stream_result \<Rightarrow> app_state \<Rightarrow> app_state list \<times> completion" where
  "handleContinueWriting_run nanoid stream s =
     (case handleContinueWriting_invoke nanoid s of
        None \<Rightarrow> ([], Normal s)
      | Some s1 \<Rightarrow>
          (case stream of
             OpenFailed e \<Rightarrow>
               (let c = handleContinueWriting_settle (nanoid 0) (Some e) s1
                in ([s1, state_of c], c))
           | Chunks texts failure \<Rightarrow>
               (let mids = for_await (initialContent (storyContent s)) texts s1;
                    c = handleContinueWriting_settle (nanoid 0) failure (last (s1 # mids))
                in (s1 # mids @ [state_of c], c))))"

definition handleContinueWriting ::
    "(nat \<Rightarrow> jsstring) \<Rightarrow> stream_result \<Rightarrow> app_state \<Rightarrow> completion" where
  "handleContinueWriting nanoid stream s = snd (handleContinueWriting_run nanoid stream s)"

definition handleContinueWriting_states ::
    "(nat \<Rightarrow> jsstring) \<Rightarrow> stream_result \<Rightarrow> app_state \<Rightarrow> app_state list" where
  "handleContinueWriting_states nanoid stream s = fst (handleContinueWriting_run nanoid stream s)"

subsection \<open>The export\<close>

definition handleExportPdf :: "app_state \<Rightarrow> app_state" where
  "handleExportPdf s = (if trim (storyContent s) \<noteq> [] then s\<lparr>isExportingPdf := True\<rparr> else s)"

text \<open>
  What happens inside \<open>exportWorker\<close>: the off-screen element is missing, the capture and
  the packaging succeed, or one of them throws.
\<close>

datatype export_result = NoElement | Saved | Failed

definition exportWorker :: "(nat \<Rightarrow> jsstring) \<Rightarrow> export_result \<Rightarrow> app_state \<Rightarrow> app_state" where
  "exportWorker nanoid r s =
     (case r of
        NoElement \<Rightarrow> s\<lparr>isExportingPdf := False\<rparr>
      | Saved \<Rightarrow> s\<lparr>savedFiles := savedFiles s @ [str ''ai-story.pdf''], isExportingPdf := False\<rparr>
      | Failed \<Rightarrow>
          (addSystemMessage (nanoid 0)
             (str ''Could not export to PDF. See console for details.'') s)
          \<lparr>isExportingPdf := False\<rparr>)"

text \<open>
  The effect with the dependency list \<open>[isExportingPdf]\<close>: it runs after a render in which
  that value differs from the one of the render before, and starts the worker when the
  flag is set.
\<close>

definition exportEffect ::
    "(nat \<Rightarrow> jsstring) \<Rightarrow> export_result \<Rightarrow> app_state \<Rightarrow> app_state \<Rightarrow> app_state" where
  "exportEffect nanoid r before s =
     (if isExportingPdf s = isExportingPdf before then s
      else if \<not> isExportingPdf s then s
      else exportWorker nanoid r s)"

text \<open>An export request: the click handler, then the effects of the render it causes.\<close>

definition exportRequest ::
    "(nat \<Rightarrow> jsstring) \<Rightarrow> export_result \<Rightarrow> app_state \<Rightarrow> app_state" where
  "exportRequest nanoid r s = exportEffect nanoid r s (handleExportPdf s)"

section \<open>Concrete inputs\<close>

text \<open>The initial values of the \<open>useState\<close> cells; \<open>welcomeId\<close> is the id drawn for \<open>initialChat\<close>.\<close>

definition initialChat :: "jsstring \<Rightarrow> ChatMessage list" where
  "initialChat welcomeId =
     [\<lparr>msg_id = welcomeId, role = System, content = str ''welcome'', isThinking = None\<rparr>]"

definition initialState :: app_state where
  "initialState =
     \<lparr> theme = Dark, isFocusMode = False, storyContent = [], selectedText = [],
       isAiResponding = False, chatHistory = initialChat (str ''w''),
       isExportingPdf = False, gatewayCalls = [], savedFiles = [] \<rparr>"

text \<open>A source of ids for the examples: the \<open>k\<close>-th draw is the letter \<open>i\<close> and the code unit \<open>k\<close>.\<close>

definition test_nanoid :: "nat \<Rightarrow> jsstring" where
  "test_nanoid k = str ''i'' @ [word_of_nat k]"

definition other_nanoid :: "nat \<Rightarrow> jsstring" where
  "other_nanoid k = str ''j'' @ [word_of_nat k]"

definition once_upon_a_time :: app_state where
  "once_upon_a_time = initialState\<lparr>storyContent := str ''Once upon a time''\<rparr>"

definition hero_chunks :: "jsstring list" where
  "hero_chunks = [str '','', str '' a hero'', str '' rose.'']"

text \<open>A state in which an orchestration is in flight, and one with a selection of two blanks.\<close>

definition busy_state :: app_state where
  "busy_state = initialState\<lparr>isAiResponding := True\<rparr>"

definition blank_selection :: app_state where
  "blank_selection = initialState\<lparr>selectedText := str ''  '', storyContent := str ''  ''\<rparr>"

section \<open>Auxiliary facts\<close>

lemma dropWhile_all_iff: "(\<forall>x\<in>set (dropWhile P xs). P x) \<longleftrightarrow> (\<forall>x\<in>set xs. P x)"
  by (induction xs) auto

lemma trim_Nil_iff: "trim s = [] \<longleftrightarrow> (\<forall>c\<in>set s. isWhiteSpace c)"
  by (simp add: trim_def dropWhile_all_iff)

lemma for_await_last:
  "last (s # for_await cur texts s) =
     (if texts = [] then s else s\<lparr>storyContent := cur @ concat texts\<rparr>)"
  by (induction texts arbitrary: cur s) (auto simp: Let_def)

lemma for_await_Nil_iff: "for_await cur texts s = [] \<longleftrightarrow> texts = []"
  by (cases texts) (simp_all add: Let_def)

lemma for_await_last_chunk:
  "texts \<noteq> [] \<Longrightarrow> last (for_await cur texts s) = s\<lparr>storyContent := cur @ concat texts\<rparr>"
  using for_await_last [of s cur texts] by (simp add: for_await_Nil_iff)

lemma for_await_elem:
  "x \<in> set (for_await cur texts s) \<Longrightarrow> \<exists>c. x = s\<lparr>storyContent := c\<rparr>"
proof (induction texts arbitrary: cur s)
  case Nil
  then show ?case by simp
next
  case (Cons t ts)
  from Cons.prems have "x = s\<lparr>storyContent := cur @ t\<rparr>
      \<or> x \<in> set (for_await (cur @ t) ts (s\<lparr>storyContent := cur @ t\<rparr>))"
    by (simp add: Let_def)
  then show ?case
  proof
    assume "x = s\<lparr>storyContent := cur @ t\<rparr>"
    then show ?thesis by blast
  next
    assume "x \<in> set (for_await (cur @ t) ts (s\<lparr>storyContent := cur @ t\<rparr>))"
    from Cons.IH [OF this] obtain c where "x = s\<lparr>storyContent := cur @ t, storyContent := c\<rparr>"
      by blast
    then have "x = s\<lparr>storyContent := c\<rparr>" by simp
    then show ?thesis by blast
  qed
qed

lemma for_await_flag:
  "x \<in> set (for_await cur texts s) \<Longrightarrow> isAiResponding x = isAiResponding s"
  by (drule for_await_elem) auto

lemma initialContent_eq:
  "initialContent story =
     (if story \<noteq> [] \<and> last story \<noteq> 0x20 then story @ [0x20] else story)"
  by (cases story rule: rev_cases) (auto simp: initialContent_def endsWith_def str_def)

lemma handleContinueWriting_settle_success:
  "handleContinueWriting_settle tid None s =
     Normal (s\<lparr>chatHistory := filter (\<lambda>msg. msg_id msg \<noteq> tid) (chatHistory s),
              isAiResponding := False\<rparr>)"
  by (simp add: handleContinueWriting_settle_def)

lemma handleContinueWriting_settle_failure:
  "handleContinueWriting_settle tid (Some e) s =
     Normal (s\<lparr>chatHistory :=
                 map (resolveThinking tid (str ''An error occurred while streaming: '' @ message e))
                     (chatHistory s),
              isAiResponding := False\<rparr>)"
  by (simp add: handleContinueWriting_settle_def)

lemma handleContinueWriting_settle_flag:
  "\<not> isAiResponding (state_of (handleContinueWriting_settle tid failure s))"
  by (cases failure)
     (simp_all add: handleContinueWriting_settle_success handleContinueWriting_settle_failure)

lemma handleSendMessage_settle_success:
  "handleSendMessage_settle tid (Inr text) s =
     Normal (s\<lparr>chatHistory := map (resolveThinking tid text) (chatHistory s),
              isAiResponding := False\<rparr>)"
  by (simp add: handleSendMessage_settle_def)

lemma handleSendMessage_settle_failure:
  "handleSendMessage_settle tid (Inl e) s =
     Normal (s\<lparr>chatHistory :=
                 map (resolveThinking tid (str ''An error occurred: '' @ message e)) (chatHistory s),
              isAiResponding := False\<rparr>)"
  by (simp add: handleSendMessage_settle_def)

lemma handleSendMessage_settle_flag:
  "\<not> isAiResponding (state_of (handleSendMessage_settle tid response s))"
  by (cases response)
     (simp_all add: handleSendMessage_settle_success handleSendMessage_settle_failure)

lemma handleSendMessage_invoke_flag:
  "isAiResponding (handleSendMessage_invoke nanoid prompt hiddenPrompt s)"
  by (simp add: handleSendMessage_invoke_def)

lemma handleContinueWriting_guard:
  "isAiResponding s \<Longrightarrow> handleContinueWriting_run nanoid stream s = ([], Normal s)"
  by (simp add: handleContinueWriting_run_def handleContinueWriting_invoke_def)

lemma handleContinueWriting_run_chunks:
  "\<not> isAiResponding s \<Longrightarrow>
   handleContinueWriting_run nanoid (Chunks texts failure) s =
     (let s1 = s\<lparr>isAiResponding := True,
                  chatHistory := chatHistory s @
                    [\<lparr>msg_id = nanoid 0, role = Model,
                      content = str ''Continuing the story...'', isThinking = Some True\<rparr>],
                  gatewayCalls := gatewayCalls s @
                    [GenerateContentStream (continueWritingStream (storyContent s))]\<rparr>;
          mids = for_await (initialContent (storyContent s)) texts s1;
          c = handleContinueWriting_settle (nanoid 0) failure (last (s1 # mids))
      in (s1 # mids @ [state_of c], c))"
  by (simp add: handleContinueWriting_run_def handleContinueWriting_invoke_def Let_def)

section \<open>The streaming continuation appends after one separator\<close>

text \<open>
  C1 (amended). A continuation that is admitted and receives at least one increment ends with
  the document equal to the initial content, one space if that content is non-empty and does
  not end in the space character U+0020, and then the increments in order. The space does
  not depend on how the first increment starts: from \<open>Once upon a time\<close> and the
  increments \<open>,\<close>, \<open> a hero\<close>, \<open> rose.\<close> the document ends as
  \<open>Once upon a time , a hero rose.\<close>
\<close>

theorem streaming_final_content:
  assumes "\<not> isAiResponding s" and "texts \<noteq> []"
  shows "storyContent (state_of (handleContinueWriting nanoid (Chunks texts None) s)) =
           (if storyContent s \<noteq> [] \<and> last (storyContent s) \<noteq> 0x20
            then storyContent s @ [0x20] else storyContent s) @ concat texts"
  using assms
  by (simp add: handleContinueWriting_def handleContinueWriting_run_chunks Let_def
        for_await_Nil_iff for_await_last_chunk handleContinueWriting_settle_success
        initialContent_eq)

theorem streaming_final_content_witness:
  "\<not> isAiResponding once_upon_a_time \<and> hero_chunks \<noteq> [] \<and>
   storyContent (state_of (handleContinueWriting test_nanoid (Chunks hero_chunks None)
                             once_upon_a_time))
     = str ''Once upon a time , a hero rose.''"
  using streaming_final_content [of once_upon_a_time hero_chunks test_nanoid]
  by (simp add: once_upon_a_time_def initialState_def hero_chunks_def str_def)

theorem streaming_example_counterexample:
  "storyContent (state_of (handleContinueWriting test_nanoid (Chunks hero_chunks None)
                             once_upon_a_time))
     \<noteq> str ''Once upon a time, a hero rose.''"
  by (simp add: handleContinueWriting_def handleContinueWriting_run_chunks Let_def
        for_await_Nil_iff for_await_last_chunk handleContinueWriting_settle_success
        initialContent_eq once_upon_a_time_def initialState_def hero_chunks_def str_def)

lemma initialContent_after_line_feed:
  "isWhiteSpace 0x0A \<and> initialContent (str ''a'' @ [0x0A]) = str ''a'' @ [0x0A, 0x20]"
  by (simp add: isWhiteSpace_def initialContent_eq)

section \<open>Admission\<close>

text \<open>
  C2. \<open>handleSendMessage\<close> has no entry guard. Invoked in a state whose responder flag
  is already set, it appends the user turn and the provisional turn and issues the call of
  \<open>sendMessage\<close>.
\<close>

theorem send_message_not_guarded:
  "isAiResponding busy_state \<and>
   chatHistory (handleSendMessage_invoke test_nanoid (str ''hi'') None busy_state) =
     chatHistory busy_state @
       [\<lparr>msg_id = test_nanoid 1, role = User, content = str ''hi'', isThinking = None\<rparr>,
        \<lparr>msg_id = test_nanoid 0, role = Model, content = str ''Thinking...'',
          isThinking = Some True\<rparr>] \<and>
   gatewayCalls (handleSendMessage_invoke test_nanoid (str ''hi'') None busy_state) =
     gatewayCalls busy_state @ [SendMessage (str ''hi'')]"
  by (simp add: busy_state_def initialState_def handleSendMessage_invoke_def fullPrompt_def
        str_def)

lemma continue_writing_rejected_when_busy:
  "isAiResponding s \<Longrightarrow>
   handleContinueWriting nanoid stream s = Normal s \<and>
   handleContinueWriting_states nanoid stream s = []"
  by (simp add: handleContinueWriting_def handleContinueWriting_states_def
        handleContinueWriting_guard)

lemma send_message_always_starts:
  "length (chatHistory (handleSendMessage_invoke nanoid prompt hiddenPrompt s))
     > length (chatHistory s) \<and>
   length (gatewayCalls (handleSendMessage_invoke nanoid prompt hiddenPrompt s))
     = Suc (length (gatewayCalls s))"
  by (simp add: handleSendMessage_invoke_def)

lemma overlapping_send_messages:
  "(let s1 = handleSendMessage_invoke test_nanoid (str ''a'') None initialState;
        s2 = handleSendMessage_invoke other_nanoid (str ''b'') None s1;
        s3 = state_of (handleSendMessage_settle (test_nanoid 0) (Inr (str ''x'')) s2)
    in \<not> isAiResponding s3 \<and>
       last (chatHistory s3) =
         \<lparr>msg_id = other_nanoid 0, role = Model, content = str ''Thinking...'',
           isThinking = Some True\<rparr>)"
  by (simp add: Let_def handleSendMessage_invoke_def handleSendMessage_settle_success
        resolveThinking_def initialState_def initialChat_def test_nanoid_def
        other_nanoid_def str_def)

section \<open>The responder flag over overlapping orchestrations\<close>

text \<open>
  C3. The flag does not stay set over the whole interval of every orchestration. Two calls
  of \<open>handleSendMessage\<close> overlap, the second invoked before the first has settled; the
  response of the first arrives first. Over the interval of the second orchestration, from
  its invocation to its resolution, the flag is set, then cleared by the \<open>finally\<close> block
  of the first while the turn of the second is still provisional, and stays cleared until
  the second resolves its turn.
\<close>

theorem responder_flag_cleared_under_overlap:
  "(let sA0 = handleSendMessage_invoke test_nanoid (str ''a'') None initialState;
        sB0 = handleSendMessage_invoke other_nanoid (str ''b'') None sA0;
        sA1 = state_of (handleSendMessage_settle (test_nanoid 0) (Inr (str ''x'')) sB0);
        sB1 = state_of (handleSendMessage_settle (other_nanoid 0) (Inr (str ''y'')) sA1)
    in map isAiResponding [sB0, sA1, sB1] = [True, False, False] \<and>
       last (chatHistory sA1) =
         \<lparr>msg_id = other_nanoid 0, role = Model, content = str ''Thinking...'',
           isThinking = Some True\<rparr> \<and>
       last (chatHistory sB1) =
         \<lparr>msg_id = other_nanoid 0, role = Model, content = str ''y'',
           isThinking = Some False\<rparr>)"
  by (simp add: Let_def handleSendMessage_invoke_def handleSendMessage_settle_success
        resolveThinking_def initialState_def initialChat_def test_nanoid_def
        other_nanoid_def str_def)

text \<open>
  The same happens to a send that is invoked while a continuation streams: the
  continuation is admitted in an idle state, the send is not held back, and the end of the
  stream clears the flag while the turn of the send is still provisional.
\<close>

lemma send_during_stream_outlives_flag:
  "(case handleContinueWriting_invoke test_nanoid once_upon_a_time of
      None \<Rightarrow> False
    | Some sC0 \<Rightarrow>
        (let sB0 = handleSendMessage_invoke other_nanoid (str ''b'') None sC0;
             sC1 = state_of (handleContinueWriting_settle (test_nanoid 0) None sB0)
         in map isAiResponding [sC0, sB0, sC1] = [True, True, False] \<and>
            last (chatHistory sC1) =
              \<lparr>msg_id = other_nanoid 0, role = Model, content = str ''Thinking...'',
                isThinking = Some True\<rparr>))"
  by (simp add: Let_def handleContinueWriting_invoke_def handleSendMessage_invoke_def
        handleContinueWriting_settle_success once_upon_a_time_def
        initialState_def initialChat_def test_nanoid_def other_nanoid_def str_def)

text \<open>
  What the \<open>try\<close> and \<open>finally\<close> blocks do give: among the states that one orchestration
  sets by itself, with no step of another handler in between, the flag is true in every
  state but the last and false in the last.
\<close>

lemma isolated_run_responder_flag:
  "(let tr = handleSendMessage_states nanoid prompt hiddenPrompt response s
    in length tr \<ge> 2 \<and> (\<forall>x\<in>set (butlast tr). isAiResponding x) \<and> \<not> isAiResponding (last tr)
       \<and> last tr = state_of (handleSendMessage nanoid prompt hiddenPrompt response s)) \<and>
   (\<not> isAiResponding s \<longrightarrow>
     (let tr = handleContinueWriting_states nanoid stream s
      in length tr \<ge> 2 \<and> (\<forall>x\<in>set (butlast tr). isAiResponding x) \<and> \<not> isAiResponding (last tr)
         \<and> last tr = state_of (handleContinueWriting nanoid stream s)))"
proof (intro conjI impI)
  show "let tr = handleSendMessage_states nanoid prompt hiddenPrompt response s
    in length tr \<ge> 2 \<and> (\<forall>x\<in>set (butlast tr). isAiResponding x) \<and> \<not> isAiResponding (last tr)
       \<and> last tr = state_of (handleSendMessage nanoid prompt hiddenPrompt response s)"
    by (simp add: handleSendMessage_states_def handleSendMessage_invoke_flag
          handleSendMessage_def handleSendMessage_settle_flag)
next
  assume idle: "\<not> isAiResponding s"
  show "let tr = handleContinueWriting_states nanoid stream s
      in length tr \<ge> 2 \<and> (\<forall>x\<in>set (butlast tr). isAiResponding x) \<and> \<not> isAiResponding (last tr)
         \<and> last tr = state_of (handleContinueWriting nanoid stream s)"
  proof (cases stream)
    case (OpenFailed e)
    with idle show ?thesis
      by (simp add: handleContinueWriting_states_def handleContinueWriting_def
            handleContinueWriting_run_def handleContinueWriting_invoke_def Let_def
            handleContinueWriting_settle_flag)
  next
    case (Chunks texts failure)
    with idle show ?thesis
      by (auto simp: handleContinueWriting_states_def handleContinueWriting_def
            handleContinueWriting_run_chunks Let_def butlast_append
            handleContinueWriting_settle_flag dest: for_await_flag)
  qed
qed

section \<open>A failed backend call becomes ledger content\<close>

text \<open>
  C4. When the call of \<open>sendMessage\<close> fails, the handler ends normally with the flag
  cleared; the ledger keeps its length; the provisional turn, which is the last entry after
  the invocation, keeps its id, role and position, has the content
  \<open>An error occurred\<close>, \<open>: \<close> and the message of the failure, and is no longer
  provisional; every entry with another id is unchanged.
\<close>

theorem converse_failure_resolved_in_place:
  "(let before = chatHistory (handleSendMessage_invoke nanoid prompt hiddenPrompt s);
        c = handleSendMessage nanoid prompt hiddenPrompt (Inl e) s;
        after = chatHistory (state_of c);
        i = length before - 1
    in escaped c = None \<and> \<not> isAiResponding (state_of c) \<and>
       length after = length before \<and>
       before ! i = \<lparr>msg_id = nanoid 0, role = Model, content = str ''Thinking...'',
                      isThinking = Some True\<rparr> \<and>
       after ! i = \<lparr>msg_id = nanoid 0, role = Model,
                     content = str ''An error occurred'' @ str '': '' @ message e,
                     isThinking = Some False\<rparr> \<and>
       (\<forall>j < length before. msg_id (before ! j) \<noteq> nanoid 0 \<longrightarrow> after ! j = before ! j))"
proof -
  define before where "before = chatHistory (handleSendMessage_invoke nanoid prompt hiddenPrompt s)"
  define ph where "ph = \<lparr>msg_id = nanoid 0, role = Model, content = str ''Thinking...'',
                          isThinking = Some True\<rparr>"
  define err where "err = str ''An error occurred: '' @ message e"
  obtain pre where before: "before = pre @ [ph]"
    by (simp add: before_def ph_def handleSendMessage_invoke_def)
  have c: "handleSendMessage nanoid prompt hiddenPrompt (Inl e) s =
             Normal ((handleSendMessage_invoke nanoid prompt hiddenPrompt s)
                       \<lparr>chatHistory := map (resolveThinking (nanoid 0) err) before,
                        isAiResponding := False\<rparr>)"
    by (simp add: handleSendMessage_def handleSendMessage_settle_failure before_def err_def)
  have last_before: "before ! (length before - 1) = ph"
    by (simp add: before)
  have "map (resolveThinking (nanoid 0) err) before ! (length before - 1)
          = resolveThinking (nanoid 0) err ph"
    by (simp add: before nth_append)
  then have last_after: "map (resolveThinking (nanoid 0) err) before ! (length before - 1)
          = \<lparr>msg_id = nanoid 0, role = Model,
              content = str ''An error occurred'' @ str '': '' @ message e,
              isThinking = Some False\<rparr>"
    by (simp add: resolveThinking_def ph_def err_def str_def)
  have others: "\<forall>j < length before. msg_id (before ! j) \<noteq> nanoid 0 \<longrightarrow>
                  map (resolveThinking (nanoid 0) err) before ! j = before ! j"
    by (simp add: resolveThinking_def)
  show ?thesis
    unfolding Let_def before_def [symmetric] c
    using last_before last_after others by (simp add: ph_def)
qed

theorem converse_failure_resolved_in_place_witness:
  "chatHistory (state_of (handleSendMessage test_nanoid (str ''hi'') None
                            (Inl (Error (str ''quota''))) initialState)) =
     [\<lparr>msg_id = str ''w'', role = System, content = str ''welcome'', isThinking = None\<rparr>,
      \<lparr>msg_id = test_nanoid 1, role = User, content = str ''hi'', isThinking = None\<rparr>,
      \<lparr>msg_id = test_nanoid 0, role = Model, content = str ''An error occurred: quota'',
        isThinking = Some False\<rparr>] \<and>
   escaped (handleSendMessage test_nanoid (str ''hi'') None
              (Inl (Error (str ''quota''))) initialState) = None"
  using converse_failure_resolved_in_place
          [of test_nanoid "str ''hi''" None initialState "Error (str ''quota'')"]
  by (simp add: handleSendMessage_def handleSendMessage_settle_failure
        handleSendMessage_invoke_def initialState_def initialChat_def resolveThinking_def
        test_nanoid_def str_def)

text \<open>
  C5. When the stream is interrupted after at least one increment, the document is the
  initial content with its separator and the increments received, the same as in the state
  before the failure; the placeholder at the end of the ledger is resolved in place to
  \<open>An error occurred while streaming: \<close> and the message; entries with other ids are
  unchanged; the handler ends normally with the flag cleared.
\<close>

theorem midstream_failure_keeps_partial_content:
  assumes "\<not> isAiResponding s" and "texts \<noteq> []"
  shows "(let tr = handleContinueWriting_states nanoid (Chunks texts (Some e)) s;
              c = handleContinueWriting nanoid (Chunks texts (Some e)) s;
              after = chatHistory (state_of c)
          in storyContent (state_of c) = initialContent (storyContent s) @ concat texts \<and>
             storyContent (state_of c) = storyContent (last (butlast tr)) \<and>
             length after = Suc (length (chatHistory s)) \<and>
             after ! length (chatHistory s) =
               \<lparr>msg_id = nanoid 0, role = Model,
                 content = str ''An error occurred while streaming: '' @ message e,
                 isThinking = Some False\<rparr> \<and>
             (\<forall>j < length (chatHistory s).
                msg_id (chatHistory s ! j) \<noteq> nanoid 0 \<longrightarrow> after ! j = chatHistory s ! j) \<and>
             escaped c = None \<and> \<not> isAiResponding (state_of c))"
  using assms
  by (simp add: handleContinueWriting_states_def handleContinueWriting_def
        handleContinueWriting_run_chunks Let_def butlast_append for_await_Nil_iff
        for_await_last_chunk handleContinueWriting_settle_failure nth_append
        resolveThinking_def)

theorem midstream_failure_keeps_partial_content_witness:
  "\<not> isAiResponding once_upon_a_time \<and> hero_chunks \<noteq> [] \<and>
   storyContent (state_of (handleContinueWriting test_nanoid
       (Chunks hero_chunks (Some (Error (str ''reset'')))) once_upon_a_time))
     = str ''Once upon a time , a hero rose.'' \<and>
   chatHistory (state_of (handleContinueWriting test_nanoid
       (Chunks hero_chunks (Some (Error (str ''reset'')))) once_upon_a_time))
     = [\<lparr>msg_id = str ''w'', role = System, content = str ''welcome'', isThinking = None\<rparr>,
        \<lparr>msg_id = test_nanoid 0, role = Model,
          content = str ''An error occurred while streaming: reset'',
          isThinking = Some False\<rparr>]"
  using midstream_failure_keeps_partial_content
          [of once_upon_a_time hero_chunks test_nanoid "Error (str ''reset'')"]
  by (simp add: handleContinueWriting_states_def handleContinueWriting_def
        handleContinueWriting_run_chunks Let_def for_await_Nil_iff
        for_await_last_chunk handleContinueWriting_settle_failure resolveThinking_def
        once_upon_a_time_def initialState_def initialChat_def hero_chunks_def
        initialContent_eq test_nanoid_def str_def)

section \<open>The placeholder of a completed continuation\<close>

text \<open>
  C6. When the stream ends normally, the ledger is the ledger of the invocation without
  the entries that carry the id of the placeholder: no entry has that id, the entries with
  other ids are kept in order, and a ledger in which that id did not occur is unchanged.
\<close>

theorem placeholder_discarded_on_success:
  assumes "\<not> isAiResponding s"
  shows "(let after = chatHistory (state_of (handleContinueWriting nanoid (Chunks texts None) s))
          in after = filter (\<lambda>m. msg_id m \<noteq> nanoid 0) (chatHistory s) \<and>
             (\<forall>m\<in>set after. msg_id m \<noteq> nanoid 0) \<and>
             (nanoid 0 \<notin> msg_id ` set (chatHistory s) \<longrightarrow> after = chatHistory s))"
proof -
  have "chatHistory (state_of (handleContinueWriting nanoid (Chunks texts None) s))
          = filter (\<lambda>m. msg_id m \<noteq> nanoid 0) (chatHistory s)"
  proof (cases "texts = []")
    case True
    with assms show ?thesis
      by (simp add: handleContinueWriting_def handleContinueWriting_run_chunks Let_def
            handleContinueWriting_settle_success)
  next
    case False
    with assms show ?thesis
      by (simp add: handleContinueWriting_def handleContinueWriting_run_chunks Let_def
            for_await_Nil_iff for_await_last_chunk handleContinueWriting_settle_success)
  qed
  moreover have "nanoid 0 \<notin> msg_id ` set (chatHistory s) \<longrightarrow>
      filter (\<lambda>m. msg_id m \<noteq> nanoid 0) (chatHistory s) = chatHistory s"
    by (force simp: filter_id_conv)
  ultimately show ?thesis
    by (simp add: Let_def)
qed

theorem placeholder_discarded_on_success_witness:
  "\<not> isAiResponding once_upon_a_time \<and>
   chatHistory (state_of (handleContinueWriting test_nanoid (Chunks hero_chunks None)
                            once_upon_a_time))
     = [\<lparr>msg_id = str ''w'', role = System, content = str ''welcome'', isThinking = None\<rparr>]"
  using placeholder_discarded_on_success [of once_upon_a_time test_nanoid hero_chunks]
  by (simp add: Let_def once_upon_a_time_def initialState_def initialChat_def test_nanoid_def
        str_def)

section \<open>Preconditions on the selection and the document\<close>

text \<open>
  C7. With a selection that is empty or consists of white space, Improve and Translate
  leave the state as it is except for one appended system turn with the advisory text:
  no backend call, no provisional turn, the responder flag unchanged.
\<close>

theorem blank_selection_gives_one_advisory:
  assumes "\<forall>c\<in>set (selectedText s). isWhiteSpace c"
  shows "handleImproveWriting nanoid response s =
           Normal (s\<lparr>chatHistory := chatHistory s @
                     [\<lparr>msg_id = nanoid 0, role = System,
                       content = str ''Please select some text in the editor to improve.'',
                       isThinking = None\<rparr>]\<rparr>) \<and>
         handleTranslate nanoid s =
           s\<lparr>chatHistory := chatHistory s @
                [\<lparr>msg_id = nanoid 0, role = System,
                  content = str ''Please select some text to translate.'',
                  isThinking = None\<rparr>]\<rparr>"
  using assms
  by (simp add: handleImproveWriting_def handleTranslate_def addSystemMessage_def
        trim_Nil_iff)

theorem blank_selection_gives_one_advisory_witness:
  "list_all isWhiteSpace (selectedText blank_selection) \<and>
   (let s = state_of (handleImproveWriting test_nanoid (Inr (str ''ok'')) blank_selection)
    in length (chatHistory s) = Suc (length (chatHistory blank_selection)) \<and>
       role (last (chatHistory s)) = System \<and>
       gatewayCalls s = [] \<and> \<not> isAiResponding s) \<and>
   (let s = handleTranslate test_nanoid blank_selection
    in length (chatHistory s) = Suc (length (chatHistory blank_selection)) \<and>
       role (last (chatHistory s)) = System \<and>
       gatewayCalls s = [] \<and> \<not> isAiResponding s)"
  using blank_selection_gives_one_advisory [of blank_selection test_nanoid "Inr (str ''ok'')"]
  by (simp add: blank_selection_def initialState_def isWhiteSpace_def str_def)

text \<open>
  C8. With a document that is empty or consists of white space, the export handler
  changes no state, and the request as a whole (the handler and the effect that depends on
  the export flag) changes none either: the flag is not set, no file is saved, the ledger is
  unchanged.
\<close>

theorem blank_document_export_rejected:
  assumes "\<forall>c\<in>set (storyContent s). isWhiteSpace c"
  shows "handleExportPdf s = s \<and> exportRequest nanoid r s = s"
  using assms
  by (simp add: handleExportPdf_def exportRequest_def exportEffect_def trim_Nil_iff)

theorem blank_document_export_rejected_witness:
  "list_all isWhiteSpace (storyContent blank_selection) \<and>
   \<not> isExportingPdf (exportRequest test_nanoid Saved blank_selection) \<and>
   savedFiles (exportRequest test_nanoid Saved blank_selection) = [] \<and>
   chatHistory (exportRequest test_nanoid Saved blank_selection) = chatHistory blank_selection"
  using blank_document_export_rejected [of blank_selection test_nanoid Saved]
  by (simp add: blank_selection_def initialState_def isWhiteSpace_def str_def)

lemma export_of_text_saves_file:
  "savedFiles (exportRequest test_nanoid Saved once_upon_a_time) = [str ''ai-story.pdf'']"
  by (simp add: exportRequest_def exportEffect_def handleExportPdf_def exportWorker_def
        once_upon_a_time_def initialState_def trim_Nil_iff isWhiteSpace_def str_def)

section \<open>The prompt of the streaming request\<close>

text \<open>
  C9. \<open>continueWritingStream\<close> sends the opening instruction for an empty document and
  the document itself otherwise, so the prompt is never empty; this request is the one an
  admitted continuation issues.
\<close>

theorem empty_story_prompt_substituted:
  "contents (continueWritingStream []) = str ''Start a new, intriguing story.'' \<and>
   (story \<noteq> [] \<longrightarrow> contents (continueWritingStream story) = story) \<and>
   contents (continueWritingStream story) \<noteq> [] \<and>
   (\<not> isAiResponding s \<longrightarrow>
      (\<exists>s1. handleContinueWriting_invoke nanoid s = Some s1 \<and>
            gatewayCalls s1 = gatewayCalls s @
              [GenerateContentStream (continueWritingStream (storyContent s))]))"
  by (simp add: continueWritingStream_def handleContinueWriting_invoke_def str_def)

theorem empty_story_prompt_substituted_witness:
  "str ''Once'' \<noteq> [] \<and> contents (continueWritingStream (str ''Once'')) = str ''Once'' \<and>
   \<not> isAiResponding initialState \<and>
   map_option gatewayCalls (handleContinueWriting_invoke test_nanoid initialState) =
     Some [GenerateContentStream (continueWritingStream [])] \<and>
   contents (continueWritingStream []) = str ''Start a new, intriguing story.''"
  using empty_story_prompt_substituted [of "str ''Once''" initialState test_nanoid]
  by (auto simp: initialState_def str_def)

section \<open>The language choice\<close>

text \<open>
  C10. With a selection that is empty or consists of white space, the choice of a language
  changes nothing and ends normally, whereas the first phase of Translate appends a turn in
  the same state.
\<close>

theorem language_choice_on_blank_selection_is_noop:
  assumes "\<forall>c\<in>set (selectedText s). isWhiteSpace c"
  shows "handleLanguageSelect nanoid language response s = Normal s \<and>
         chatHistory (handleTranslate nanoid s) \<noteq> chatHistory s"
  using assms
  by (simp add: handleLanguageSelect_def handleTranslate_def addSystemMessage_def trim_Nil_iff)

theorem language_choice_on_blank_selection_is_noop_witness:
  "list_all isWhiteSpace (selectedText blank_selection) \<and>
   handleLanguageSelect test_nanoid (str ''French'') (Inr (str ''ok'')) blank_selection
     = Normal blank_selection"
  using language_choice_on_blank_selection_is_noop
          [of blank_selection test_nanoid "str ''French''" "Inr (str ''ok'')"]
  by (simp add: blank_selection_def initialState_def isWhiteSpace_def str_def)

lemma language_choice_on_selection_starts:
  "gatewayCalls (state_of (handleLanguageSelect test_nanoid (str ''French'') (Inr (str ''ok''))
                   (initialState\<lparr>selectedText := str ''cat''\<rparr>)))
     = [SendMessage (str ''Translate the following text into French. Only return the translated text. Text: ''
                     @ [0x22] @ str ''cat'' @ [0x22])]"
  by (simp add: handleLanguageSelect_def handleSendMessage_def handleSendMessage_invoke_def
        handleSendMessage_settle_success fullPrompt_def initialState_def trim_Nil_iff
        isWhiteSpace_def str_def)

end
